theory Spec2Isabelle
  imports Complex_Main
begin

section \<open>Values that cross the network boundary\<close>

text \<open>
  \<^verbatim>\<open>parseAgentResponse(data: unknown)\<close> inspects its argument with \<^verbatim>\<open>typeof\<close>,
  truthiness, \<^verbatim>\<open>Array.isArray\<close> and property reads, so the payload is modelled as a
  JavaScript value of the kinds a decoded HTTP response can hold. A number is a finite
  rational (every finite double is one; the two zeros coincide), NaN or an infinity.
  An object is the list of its own properties, read with \<open>map_of\<close>.
\<close>

datatype jsnum = Fin rat | NaN | PosInf | NegInf

datatype jsval =
    JUndefined
  | JNull
  | JBool bool
  | JNum jsnum
  | JStr string
  | JArr "jsval list"
  | JObj "(string \<times> jsval) list"

text \<open>The \<^verbatim>\<open>typeof\<close> operator.\<close>

fun typeof :: "jsval \<Rightarrow> string" where
  "typeof JUndefined = ''undefined''"
| "typeof JNull = ''object''"
| "typeof (JBool b) = ''boolean''"
| "typeof (JNum n) = ''number''"
| "typeof (JStr s) = ''string''"
| "typeof (JArr xs) = ''object''"
| "typeof (JObj kvs) = ''object''"

text \<open>Truthiness, as \<^verbatim>\<open>!data\<close> and \<^verbatim>\<open>a && b\<close> test it.\<close>

fun truthy :: "jsval \<Rightarrow> bool" where
  "truthy JUndefined = False"
| "truthy JNull = False"
| "truthy (JBool b) = b"
| "truthy (JNum n) = (n \<noteq> Fin 0 \<and> n \<noteq> NaN)"
| "truthy (JStr s) = (s \<noteq> [])"
| "truthy (JArr xs) = True"
| "truthy (JObj kvs) = True"

text \<open>
  The optional read \<^verbatim>\<open>parsed?.key\<close>. On \<^verbatim>\<open>null\<close> and \<^verbatim>\<open>undefined\<close> the optional
  chain gives \<^verbatim>\<open>undefined\<close>. Primitives and arrays carry only indices, \<^verbatim>\<open>length\<close> and
  prototype methods, none of which is a key the program reads (\<^verbatim>\<open>result\<close>,
  \<^verbatim>\<open>current_price\<close>, \<^verbatim>\<open>price_change\<close>, \<^verbatim>\<open>direction\<close>, \<^verbatim>\<open>bullet_points\<close>,
  \<^verbatim>\<open>timestamp\<close>), so the read gives \<^verbatim>\<open>undefined\<close> there as well.
\<close>

fun get_prop :: "jsval \<Rightarrow> string \<Rightarrow> jsval" where
  "get_prop (JObj kvs) k = (case map_of kvs k of Some v \<Rightarrow> v | None \<Rightarrow> JUndefined)"
| "get_prop v k = JUndefined"

section \<open>The analysis record\<close>

datatype source_tag = manual | scheduled

text \<open>
  \<^verbatim>\<open>Omit<AnalysisEntry, 'id' | 'source'>\<close>, the value \<^verbatim>\<open>parseAgentResponse\<close> returns, and
  \<^verbatim>\<open>AnalysisEntry\<close> itself (\<^verbatim>\<open>SampleEntry\<close> has the same fields). The field \<^verbatim>\<open>id\<close> is
  named \<open>entry_id\<close> here.
\<close>

record fragment =
  currentPrice :: string
  priceChange :: string
  direction :: string
  bulletPoints :: "string list"
  timestamp :: string

record AnalysisEntry = fragment +
  entry_id :: string
  source :: source_tag

section \<open>The response normalizer\<close>

text \<open>
  \<^verbatim>\<open>typeof parsed?.key === 'string' ? parsed.key : dflt\<close>
\<close>

definition string_field :: "jsval \<Rightarrow> string \<Rightarrow> string \<Rightarrow> string" where
  "string_field parsed key dflt =
     (case get_prop parsed key of JStr s \<Rightarrow> s | _ \<Rightarrow> dflt)"

text \<open>
  \<^verbatim>\<open>Array.isArray(parsed?.bullet_points)
      ? parsed.bullet_points.filter((b) => typeof b === 'string') : []\<close>
\<close>

definition string_elements :: "jsval list \<Rightarrow> string list" where
  "string_elements bs = List.map_filter (\<lambda>b. case b of JStr s \<Rightarrow> Some s | _ \<Rightarrow> None) bs"

definition bullet_field :: "jsval \<Rightarrow> string list" where
  "bullet_field parsed =
     (case get_prop parsed ''bullet_points'' of JArr bs \<Rightarrow> string_elements bs | _ \<Rightarrow> [])"

text \<open>
  \<^verbatim>\<open>if (parsed?.result && typeof parsed.result === 'object') parsed = parsed.result\<close>:
  one level of unwrapping.
\<close>

definition unwrap_result :: "jsval \<Rightarrow> jsval" where
  "unwrap_result parsed =
     (let r = get_prop parsed ''result''
      in if truthy r \<and> typeof r = ''object'' then r else parsed)"

text \<open>
  The five field extractions and the returned object. \<open>now\<close> is what
  \<^verbatim>\<open>new Date().toISOString()\<close> gives when the normalizer runs.
\<close>

definition extract_fields :: "string \<Rightarrow> jsval \<Rightarrow> fragment" where
  "extract_fields now parsed =
     \<lparr> currentPrice = string_field parsed ''current_price'' ''N/A'',
       priceChange = string_field parsed ''price_change'' ''N/A'',
       direction = string_field parsed ''direction'' ''flat'',
       bulletPoints = bullet_field parsed,
       timestamp = string_field parsed ''timestamp'' now \<rparr>"

text \<open>
  \<^verbatim>\<open>parseAgentResponse\<close>. \<open>None\<close> is the source's \<^verbatim>\<open>null\<close> (Unparseable). The built-in
  \<^verbatim>\<open>JSON.parse\<close> is the parameter \<open>json_parse\<close>: \<open>None\<close> where it throws, the decoded
  value otherwise.
\<close>

definition parseAgentResponse ::
  "(string \<Rightarrow> jsval option) \<Rightarrow> string \<Rightarrow> jsval \<Rightarrow> fragment option" where
  "parseAgentResponse json_parse now data =
     (if \<not> truthy data then None
      else
        (case (if typeof data = ''string''
               then (case data of JStr s \<Rightarrow> json_parse s | _ \<Rightarrow> None)
               else if typeof data = ''object'' then Some data
               else None) of
           None \<Rightarrow> None
         | Some parsed \<Rightarrow> Some (extract_fields now (unwrap_result parsed))))"

section \<open>Remote collaborators\<close>

text \<open>
  The four remote services are reached through \<^verbatim>\<open>callAIAgent\<close>, \<^verbatim>\<open>listSchedules\<close>,
  \<^verbatim>\<open>getScheduleLogs\<close>, \<^verbatim>\<open>pauseSchedule\<close> and \<^verbatim>\<open>resumeSchedule\<close>, imported from
  \<^verbatim>\<open>@/lib/aiAgent\<close> and \<^verbatim>\<open>@/lib/scheduler\<close>. An awaited call either throws (the
  thrown value is an \<^verbatim>\<open>Error\<close> with its message, or something else) or returns.
  The records below hold the fields of the returned values that the page reads; a
  returned \<^verbatim>\<open>null\<close> or \<^verbatim>\<open>undefined\<close>, whose first property read throws a
  \<^verbatim>\<open>TypeError\<close> inside the same \<^verbatim>\<open>try\<close>, counts as a throw.
\<close>

datatype thrown = ErrorObj string | NonError

datatype 'a outcome = Threw thrown | Returned 'a

text \<open>
  \<^verbatim>\<open>ExecutionLog\<close>: \<open>log_id\<close> is \<open>None\<close> when the entry has no \<^verbatim>\<open>id\<close>.
\<close>

record ExecutionLog =
  log_id :: "string option"
  log_success :: bool
  executed_at :: string
  response_output :: jsval

text \<open>
  What \<^verbatim>\<open>getScheduleLogs\<close> returns: \<open>executions\<close> is \<open>None\<close> when
  \<^verbatim>\<open>Array.isArray(result.executions)\<close> is false.
\<close>

record logs_result =
  logs_success :: bool
  executions :: "ExecutionLog list option"
  total_count :: int

record Schedule =
  sched_id :: string
  is_active :: bool
  cron_expression :: string
  timezone :: string
  next_run_time :: "string option"

record schedules_result =
  schedules_success :: bool
  schedules :: "Schedule list option"

text \<open>
  What \<^verbatim>\<open>callAIAgent\<close> returns: \<open>response_result\<close> is \<^verbatim>\<open>result?.response?.result\<close>
  (\<open>JUndefined\<close> when a link of the chain is missing), \<open>agent_error\<close> is
  \<^verbatim>\<open>result?.error\<close>.
\<close>

record agent_result =
  agent_success :: bool
  response_result :: jsval
  agent_error :: "string option"

text \<open>The requests the page sends, with their arguments.\<close>

datatype remote_call =
    CallAIAgent string string
  | ListSchedules string
  | GetScheduleLogs string nat
  | PauseSchedule string
  | ResumeSchedule string

definition AGENT_ID :: string where
  "AGENT_ID = ''699c608cb6c78525434dfd6c''"

definition SCHEDULE_ID :: string where
  "SCHEDULE_ID = ''699c6093399dfadeac38a2e8''"

definition ANALYSIS_PROMPT :: string where
  "ANALYSIS_PROMPT = ''Analyze the current MSFT stock price, direction, and key trends. Return current_price, price_change, direction, bullet_points, and timestamp.''"

section \<open>Session state\<close>

text \<open>
  The \<^verbatim>\<open>useState\<close> variables of \<^verbatim>\<open>Page\<close>, the ref \<^verbatim>\<open>lastLogIdRef\<close> (\<open>lastLogId\<close>), and
  \<open>requests\<close>: the remote requests issued so far, oldest first, which makes the
  page's network effect a part of the state.
\<close>

record session =
  feed :: "AnalysisEntry list"
  isAnalyzing :: bool
  analysisError :: "string option"
  showSampleData :: bool
  scheduleActive :: "bool option"
  scheduleData :: "Schedule option"
  toggling :: bool
  logs :: "ExecutionLog list"
  logsTotal :: int
  showSchedulePanel :: bool
  newUpdateBanner :: bool
  lastUpdated :: "string option"
  mounted :: bool
  lastLogId :: "string option"
  requests :: "remote_call list"

definition initial_session :: session where
  "initial_session =
     \<lparr> feed = [], isAnalyzing = False, analysisError = None, showSampleData = False,
       scheduleActive = None, scheduleData = None, toggling = False, logs = [],
       logsTotal = 0, showSchedulePanel = False, newUpdateBanner = False,
       lastUpdated = None, mounted = False, lastLogId = None, requests = [] \<rparr>"

text \<open>
  What a flow reads from outside the state while it runs: the built-in \<^verbatim>\<open>JSON.parse\<close>,
  the string \<^verbatim>\<open>generateId()\<close> returns, the clock text of the normalizer's
  \<^verbatim>\<open>new Date().toISOString()\<close> and of the later one in \<^verbatim>\<open>setLastUpdated\<close>, and
  \<^verbatim>\<open>feedContainerRef.current.scrollTop\<close> (\<open>None\<close> when the ref is empty).
\<close>

record env =
  JSON_parse :: "string \<Rightarrow> jsval option"
  generateId :: string
  parse_clock :: string
  update_clock :: string
  scroll_top :: "rat option"

definition log_request :: "remote_call \<Rightarrow> session \<Rightarrow> session" where
  "log_request c st = st\<lparr>requests := requests st @ [c]\<rparr>"

text \<open>\<^verbatim>\<open>{ id: generateId(), ...parsed, source }\<close>\<close>

definition mk_entry :: "string \<Rightarrow> fragment \<Rightarrow> source_tag \<Rightarrow> AnalysisEntry" where
  "mk_entry i parsed src =
     \<lparr> currentPrice = currentPrice parsed, priceChange = priceChange parsed,
       direction = direction parsed, bulletPoints = bulletPoints parsed,
       timestamp = timestamp parsed, entry_id = i, source = src \<rparr>"

section \<open>Schedule status and execution logs\<close>

text \<open>
  \<^verbatim>\<open>result.schedules.find((s) => s.id === SCHEDULE_ID) || result.schedules[0]\<close>
\<close>

definition select_schedule :: "Schedule list \<Rightarrow> Schedule option" where
  "select_schedule ss =
     (case List.find (\<lambda>s. sched_id s = SCHEDULE_ID) ss of
        Some s \<Rightarrow> Some s
      | None \<Rightarrow> (case ss of [] \<Rightarrow> None | s # rest \<Rightarrow> Some s))"

definition loadScheduleStatus :: "schedules_result outcome \<Rightarrow> session \<Rightarrow> session" where
  "loadScheduleStatus fetch st0 =
     (let st = log_request (ListSchedules AGENT_ID) st0
      in case fetch of
           Threw err \<Rightarrow> st
         | Returned result \<Rightarrow>
             if schedules_success result then
               (case schedules result of
                  None \<Rightarrow> st
                | Some ss \<Rightarrow>
                    (case select_schedule ss of
                       None \<Rightarrow> st
                     | Some sched \<Rightarrow>
                         st\<lparr>scheduleData := Some sched,
                            scheduleActive := Some (is_active sched)\<rparr>))
             else st)"

definition loadLogs :: "logs_result outcome \<Rightarrow> session \<Rightarrow> session" where
  "loadLogs fetch st0 =
     (let st = log_request (GetScheduleLogs SCHEDULE_ID 5) st0
      in case fetch of
           Threw err \<Rightarrow> st
         | Returned result \<Rightarrow>
             if logs_success result then
               (case executions result of
                  None \<Rightarrow> st
                | Some execs \<Rightarrow> st\<lparr>logs := execs, logsTotal := total_count result\<rparr>)
             else st)"

section \<open>The execution poller\<close>

text \<open>
  The updater the poller passes to \<^verbatim>\<open>setFeed\<close>:
  \<^verbatim>\<open>prev.some((e) => e.timestamp === entry.timestamp && e.currentPrice === entry.currentPrice)\<close>
  keeps \<^verbatim>\<open>prev\<close>, otherwise the entry goes in front.
\<close>

definition isDuplicate :: "AnalysisEntry \<Rightarrow> AnalysisEntry list \<Rightarrow> bool" where
  "isDuplicate entry prev =
     list_ex (\<lambda>e. timestamp e = timestamp entry \<and> currentPrice e = currentPrice entry) prev"

definition insert_scheduled :: "AnalysisEntry \<Rightarrow> AnalysisEntry list \<Rightarrow> AnalysisEntry list" where
  "insert_scheduled entry prev = (if isDuplicate entry prev then prev else entry # prev)"

text \<open>
  The part of a tick after \<^verbatim>\<open>lastLogIdRef.current = latestLog.id\<close>: the latest entry's
  payload is normalized when the entry succeeded and carries one.
\<close>

definition process_latest :: "env \<Rightarrow> ExecutionLog \<Rightarrow> session \<Rightarrow> session" where
  "process_latest env latestLog st =
     (if log_success latestLog \<and> truthy (response_output latestLog) then
        (case parseAgentResponse (JSON_parse env) (parse_clock env)
                (response_output latestLog) of
           None \<Rightarrow> st
         | Some parsed \<Rightarrow>
             st\<lparr>feed := insert_scheduled (mk_entry (generateId env) parsed scheduled) (feed st),
                lastUpdated := Some (update_clock env),
                newUpdateBanner :=
                  (case scroll_top env of
                     None \<Rightarrow> newUpdateBanner st
                   | Some offset \<Rightarrow> if offset > 100 then True else newUpdateBanner st)\<rparr>)
      else st)"

text \<open>
  \<^verbatim>\<open>pollForNewResults\<close>, one tick. A thrown fetch lands in the \<^verbatim>\<open>catch\<close>, which does
  nothing; every \<^verbatim>\<open>return\<close> of the source is a branch that gives the state back.
\<close>

definition pollForNewResults :: "env \<Rightarrow> logs_result outcome \<Rightarrow> session \<Rightarrow> session" where
  "pollForNewResults env fetch st0 =
     (let st = log_request (GetScheduleLogs SCHEDULE_ID 3) st0
      in case fetch of
           Threw err \<Rightarrow> st
         | Returned result \<Rightarrow>
             if \<not> logs_success result then st
             else
               (case executions result of
                  None \<Rightarrow> st
                | Some execs \<Rightarrow>
                    (case execs of
                       [] \<Rightarrow> st
                     | latestLog # older \<Rightarrow>
                         (case log_id latestLog of
                            None \<Rightarrow> st
                          | Some lid \<Rightarrow>
                              if lid = [] then st
                              else if lastLogId st = Some lid then st
                              else if lastLogId st = None then st\<lparr>lastLogId := Some lid\<rparr>
                              else
                                (process_latest env latestLog (st\<lparr>lastLogId := Some lid\<rparr>))
                                  \<lparr>logs := execs, logsTotal := total_count result\<rparr>))))"

section \<open>The manual trigger\<close>

text \<open>
  \<^verbatim>\<open>result?.error || 'Analysis failed. Please try again.'\<close>
\<close>

definition error_or_default :: "string option \<Rightarrow> string" where
  "error_or_default e =
     (case e of
        None \<Rightarrow> ''Analysis failed. Please try again.''
      | Some m \<Rightarrow> if m = [] then ''Analysis failed. Please try again.'' else m)"

text \<open>
  \<^verbatim>\<open>err instanceof Error ? err.message : 'Network error during analysis.'\<close>
\<close>

definition thrown_message :: "thrown \<Rightarrow> string" where
  "thrown_message err =
     (case err of ErrorObj m \<Rightarrow> m | NonError \<Rightarrow> ''Network error during analysis.'')"

text \<open>
  \<^verbatim>\<open>runAnalysis\<close>: the flags are set, the agent is called once, and the \<^verbatim>\<open>finally\<close>
  clears \<^verbatim>\<open>isAnalyzing\<close>. The new entry goes in front of the feed with no further test.
\<close>

definition runAnalysis :: "env \<Rightarrow> agent_result outcome \<Rightarrow> session \<Rightarrow> session" where
  "runAnalysis env call st0 =
     (let st = log_request (CallAIAgent ANALYSIS_PROMPT AGENT_ID)
                 (st0\<lparr>isAnalyzing := True, analysisError := None\<rparr>);
          st' =
            (case call of
               Threw err \<Rightarrow> st\<lparr>analysisError := Some (thrown_message err)\<rparr>
             | Returned result \<Rightarrow>
                 if agent_success result then
                   (case parseAgentResponse (JSON_parse env) (parse_clock env)
                           (response_result result) of
                      Some parsed \<Rightarrow>
                        st\<lparr>feed := mk_entry (generateId env) parsed manual # feed st,
                           lastUpdated := Some (update_clock env)\<rparr>
                    | None \<Rightarrow>
                        st\<lparr>analysisError :=
                             Some ''Received unexpected response format from agent.''\<rparr>)
                 else st\<lparr>analysisError := Some (error_or_default (agent_error result))\<rparr>)
      in st'\<lparr>isAnalyzing := False\<rparr>)"

text \<open>
  The error banner of the page, \<^verbatim>\<open>{analysisError && (... <span>{analysisError}</span> ...)}\<close>:
  the stored message is shown when it is truthy, so neither \<^verbatim>\<open>null\<close> nor the empty
  string shows a banner.
\<close>

definition error_banner :: "session \<Rightarrow> string option" where
  "error_banner st =
     (case analysisError st of
        None \<Rightarrow> None
      | Some m \<Rightarrow> if m = [] then None else Some m)"

section \<open>The schedule toggle\<close>

text \<open>
  \<^verbatim>\<open>handleToggleSchedule\<close>: nothing happens without \<^verbatim>\<open>scheduleData\<close>. Otherwise the
  pause or resume request is chosen from \<^verbatim>\<open>scheduleData.is_active\<close>; \<open>toggle_call\<close> is
  the outcome of that request, whose returned value the source drops. Only when it
  returns does the \<^verbatim>\<open>try\<close> block reach \<^verbatim>\<open>await loadScheduleStatus()\<close>; a throw goes
  to the empty \<^verbatim>\<open>catch\<close>. The \<^verbatim>\<open>finally\<close> clears \<^verbatim>\<open>toggling\<close>.
\<close>

definition handleToggleSchedule ::
  "jsval outcome \<Rightarrow> schedules_result outcome \<Rightarrow> session \<Rightarrow> session" where
  "handleToggleSchedule toggle_call fetch st0 =
     (case scheduleData st0 of
        None \<Rightarrow> st0
      | Some sd \<Rightarrow>
          (let st = log_request
                      (if is_active sd then PauseSchedule (sched_id sd)
                       else ResumeSchedule (sched_id sd))
                      (st0\<lparr>toggling := True\<rparr>);
               st' = (case toggle_call of
                        Threw err \<Rightarrow> st
                      | Returned ack \<Rightarrow> loadScheduleStatus fetch st)
           in st'\<lparr>toggling := False\<rparr>))"

section \<open>Display of the feed\<close>

text \<open>
  \<^verbatim>\<open>getSampleData\<close>: \<open>now\<close> is \<^verbatim>\<open>Date.now()\<close> in milliseconds and \<open>toISOString ms\<close>
  the text of \<^verbatim>\<open>new Date(ms).toISOString()\<close>, a built-in.
\<close>

definition getSampleData :: "(int \<Rightarrow> string) \<Rightarrow> int \<Rightarrow> AnalysisEntry list" where
  "getSampleData toISOString now =
     [ \<lparr> currentPrice = ''$421.35'',
         priceChange = ''+$4.10 (+0.98%)'',
         direction = ''up'',
         bulletPoints =
           [''MSFT shares gained nearly 1% in early trading, building on momentum from strong cloud revenue guidance.'',
            ''Azure growth rate accelerated to 33% YoY, exceeding analyst expectations of 30%.'',
            ''Institutional buying pressure remains robust with above-average volume.''],
         timestamp = toISOString (now - 2 * 60 * 1000),
         entry_id = ''sample-1'',
         source = manual \<rparr>,
       \<lparr> currentPrice = ''$417.25'',
         priceChange = ''-$2.15 (-0.51%)'',
         direction = ''down'',
         bulletPoints =
           [''MSFT dipped modestly amid broader tech sector rotation as investors moved toward defensive positions.'',
            ''Despite the pullback, the stock remains well above its 50-day moving average of $410.''],
         timestamp = toISOString (now - 12 * 60 * 1000),
         entry_id = ''sample-2'',
         source = scheduled \<rparr>,
       \<lparr> currentPrice = ''$419.40'',
         priceChange = ''+$0.05 (+0.01%)'',
         direction = ''flat'',
         bulletPoints =
           [''MSFT traded essentially flat as the market awaits key CPI data tomorrow.'',
            ''Options activity suggests traders are positioning for a breakout above $425 resistance.'',
            ''AI infrastructure capex guidance remains a key focus for upcoming earnings call.''],
         timestamp = toISOString (now - 22 * 60 * 1000),
         entry_id = ''sample-3'',
         source = scheduled \<rparr> ]"

text \<open>
  \<^verbatim>\<open>const displayFeed = showSampleData && feed.length === 0 ? getSampleData() : feed\<close>
\<close>

definition displayFeed :: "(int \<Rightarrow> string) \<Rightarrow> int \<Rightarrow> session \<Rightarrow> AnalysisEntry list" where
  "displayFeed toISOString now st =
     (if showSampleData st \<and> length (feed st) = 0 then getSampleData toISOString now
      else feed st)"

section \<open>Sessions as runs of events\<close>

text \<open>
  Everything that writes the state: the mount effect (\<^verbatim>\<open>setMounted(true)\<close>, then the
  two loads it starts), a poll tick, a manual run, a schedule toggle, and the four
  click handlers of the page. A flow is one event, placed where its awaited call
  completes: the feed is written through updater functions of the previous feed and
  the last-seen id through a ref, both after the \<^verbatim>\<open>await\<close>, so they see the state of
  that moment.
\<close>

datatype event =
    Mount
  | ScheduleStatusLoad "schedules_result outcome"
  | LogsLoad "logs_result outcome"
  | PollTick env "logs_result outcome"
  | ManualRun env "agent_result outcome"
  | ScheduleToggle "jsval outcome" "schedules_result outcome"
  | SampleDataToggle
  | ErrorDismiss
  | ScrollToTop
  | SchedulePanelToggle

fun step :: "event \<Rightarrow> session \<Rightarrow> session" where
  "step Mount st = st\<lparr>mounted := True\<rparr>"
| "step (ScheduleStatusLoad fetch) st = loadScheduleStatus fetch st"
| "step (LogsLoad fetch) st = loadLogs fetch st"
| "step (PollTick env fetch) st = pollForNewResults env fetch st"
| "step (ManualRun env call) st = runAnalysis env call st"
| "step (ScheduleToggle toggle_call fetch) st = handleToggleSchedule toggle_call fetch st"
| "step SampleDataToggle st = st\<lparr>showSampleData := \<not> showSampleData st\<rparr>"
| "step ErrorDismiss st = st\<lparr>analysisError := None\<rparr>"
| "step ScrollToTop st = st\<lparr>newUpdateBanner := False\<rparr>"
| "step SchedulePanelToggle st = st\<lparr>showSchedulePanel := \<not> showSchedulePanel st\<rparr>"

fun run :: "event list \<Rightarrow> session \<Rightarrow> session" where
  "run [] st = st"
| "run (ev # evs) st = run evs (step ev st)"

section \<open>Vocabulary of the properties\<close>

text \<open>The key of the feed's duplicate test.\<close>

definition dedup_key :: "AnalysisEntry \<Rightarrow> string \<times> string" where
  "dedup_key e = (timestamp e, currentPrice e)"

text \<open>
  The request a toggle issues, and the schedule a status fetch reports: the one
  \<^verbatim>\<open>loadScheduleStatus\<close> would store, if any.
\<close>

definition toggle_request :: "Schedule \<Rightarrow> remote_call" where
  "toggle_request sd =
     (if is_active sd then PauseSchedule (sched_id sd) else ResumeSchedule (sched_id sd))"

definition status_reported :: "schedules_result outcome \<Rightarrow> Schedule option" where
  "status_reported fetch =
     (case fetch of
        Threw err \<Rightarrow> None
      | Returned result \<Rightarrow>
          if schedules_success result
          then (case schedules result of None \<Rightarrow> None | Some ss \<Rightarrow> select_schedule ss)
          else None)"

text \<open>
  The names of the optional payload fields, a value that carries none of them, and the
  record of defaults.
\<close>

definition optional_fields :: "string list" where
  "optional_fields =
     [''current_price'', ''price_change'', ''direction'', ''bullet_points'', ''timestamp'']"

definition lacks_optional_fields :: "jsval \<Rightarrow> bool" where
  "lacks_optional_fields v = list_all (\<lambda>k. get_prop v k = JUndefined) optional_fields"

definition default_fragment :: "string \<Rightarrow> fragment" where
  "default_fragment now =
     \<lparr> currentPrice = ''N/A'', priceChange = ''N/A'', direction = ''flat'',
       bulletPoints = [], timestamp = now \<rparr>"

section \<open>Concrete inputs of the examples\<close>

text \<open>
  A table standing for \<^verbatim>\<open>JSON.parse\<close> on the texts the examples use: the five rows
  are what \<^verbatim>\<open>JSON.parse\<close> returns for these texts, and the only other text of the
  examples is \<^verbatim>\<open>not json\<close>, on which \<^verbatim>\<open>JSON.parse\<close> throws. The general theorems
  hold for every decoder.
\<close>

definition json_examples :: "string \<Rightarrow> jsval option" where
  "json_examples s =
     (if s = ''42'' then Some (JNum (Fin 42))
      else if s = ''true'' then Some (JBool True)
      else if s = ''null'' then Some JNull
      else if s = ''[]'' then Some (JArr [])
      else if s = ''{}'' then Some (JObj [])
      else None)"

definition example_env :: env where
  "example_env =
     \<lparr> JSON_parse = json_examples, generateId = ''k3v9q2x7m1lw0a2b'',
       parse_clock = ''2024-05-01T10:00:00.000Z'',
       update_clock = ''2024-05-01T10:00:00.002Z'', scroll_top = None \<rparr>"

definition example_log :: "string \<Rightarrow> jsval \<Rightarrow> ExecutionLog" where
  "example_log i payload =
     \<lparr> log_id = Some i, log_success = True, executed_at = ''2024-05-01T09:50:00.000Z'',
       response_output = payload \<rparr>"

definition example_page :: "ExecutionLog list \<Rightarrow> int \<Rightarrow> logs_result" where
  "example_page es n = \<lparr> logs_success = True, executions = Some es, total_count = n \<rparr>"

definition example_payload :: jsval where
  "example_payload =
     JObj [(''current_price'', JStr ''$420.10''), (''price_change'', JStr ''+$1.00 (+0.24%)''),
           (''direction'', JStr ''up''), (''bullet_points'', JArr [JStr ''Cloud revenue up.'']),
           (''timestamp'', JStr ''2024-05-01T09:50:00.000Z'')]"

definition example_agent_result :: "jsval \<Rightarrow> agent_result" where
  "example_agent_result payload =
     \<lparr> agent_success = True, response_result = payload, agent_error = None \<rparr>"

definition example_schedule :: "bool \<Rightarrow> Schedule" where
  "example_schedule active =
     \<lparr> sched_id = SCHEDULE_ID, is_active = active, cron_expression = ''*/10 * * * *'',
       timezone = ''America/New_York'', next_run_time = None \<rparr>"

definition example_listing :: "Schedule list \<Rightarrow> schedules_result" where
  "example_listing ss = \<lparr> schedules_success = True, schedules = Some ss \<rparr>"

text \<open>
  A table standing for \<^verbatim>\<open>new Date(ms).toISOString()\<close> at the six instants the
  examples use (2, 12 and 22 minutes before 10:00:00 and before 10:01:00 UTC on
  2024-05-01); the table is empty elsewhere.
\<close>

definition iso_examples :: "int \<Rightarrow> string" where
  "iso_examples ms =
     (if ms = 1714557480000 then ''2024-05-01T09:58:00.000Z''
      else if ms = 1714556880000 then ''2024-05-01T09:48:00.000Z''
      else if ms = 1714556280000 then ''2024-05-01T09:38:00.000Z''
      else if ms = 1714557540000 then ''2024-05-01T09:59:00.000Z''
      else if ms = 1714556940000 then ''2024-05-01T09:49:00.000Z''
      else if ms = 1714556340000 then ''2024-05-01T09:39:00.000Z''
      else [])"

section \<open>Properties of the normalizer\<close>

lemma extract_fields_lacking:
  "lacks_optional_fields v \<Longrightarrow> extract_fields now v = default_fragment now"
  by (simp add: lacks_optional_fields_def optional_fields_def extract_fields_def
      default_fragment_def string_field_def bullet_field_def)

lemma lacks_optional_fields_non_object:
  "\<forall>kvs. v \<noteq> JObj kvs \<Longrightarrow> lacks_optional_fields v"
  by (cases v) (auto simp: lacks_optional_fields_def optional_fields_def)

lemma unwrap_result_non_object:
  "\<forall>kvs. v \<noteq> JObj kvs \<Longrightarrow> unwrap_result v = v"
  by (cases v) (auto simp: unwrap_result_def)

lemma parseAgentResponse_object:
  "parseAgentResponse json_parse now (JObj kvs)
     = Some (extract_fields now (unwrap_result (JObj kvs)))"
  by (simp add: parseAgentResponse_def)

lemma parseAgentResponse_array:
  "parseAgentResponse json_parse now (JArr xs) = Some (extract_fields now (JArr xs))"
  by (simp add: parseAgentResponse_def unwrap_result_def)

lemma parseAgentResponse_string:
  "s \<noteq> [] \<Longrightarrow> json_parse s = Some v \<Longrightarrow>
   parseAgentResponse json_parse now (JStr s) = Some (extract_fields now (unwrap_result v))"
  by (simp add: parseAgentResponse_def)

text \<open>
  C6, as stated, fails: the payload \<^verbatim>\<open>{result: {current_price: "$1.00"}}\<close> is a
  structured object that has none of the five optional fields, and it is normalized
  to a record whose \<^verbatim>\<open>currentPrice\<close> is \<^verbatim>\<open>$1.00\<close>, not \<^verbatim>\<open>N/A\<close>.
\<close>

theorem normalizer_defaults_counterexample:
  "lacks_optional_fields (JObj [(''result'', JObj [(''current_price'', JStr ''$1.00'')])])
   \<and> map_option currentPrice
       (parseAgentResponse json_examples ''2024-05-01T10:00:00.000Z''
          (JObj [(''result'', JObj [(''current_price'', JStr ''$1.00'')])]))
     = Some ''$1.00''
   \<and> parseAgentResponse json_examples ''2024-05-01T10:00:00.000Z''
          (JObj [(''result'', JObj [(''current_price'', JStr ''$1.00'')])])
     \<noteq> Some (default_fragment ''2024-05-01T10:00:00.000Z'')"
  by (simp add: lacks_optional_fields_def optional_fields_def parseAgentResponse_def
      unwrap_result_def extract_fields_def string_field_def bullet_field_def
      default_fragment_def)

text \<open>
  C6, amended. A payload that is a structured object is never Unparseable. The fields
  are extracted from its nested \<^verbatim>\<open>result\<close> member when that member is an object (or
  an array), and from the payload itself otherwise. When the object they are extracted
  from has none of the optional fields (\<^verbatim>\<open>current_price\<close>, \<^verbatim>\<open>price_change\<close>,
  \<^verbatim>\<open>direction\<close>, \<^verbatim>\<open>bullet_points\<close>, \<^verbatim>\<open>timestamp\<close>), normalization returns
  \<^verbatim>\<open>currentPrice = "N/A"\<close>, \<^verbatim>\<open>priceChange = "N/A"\<close>, \<^verbatim>\<open>direction = "flat"\<close>, no bullet
  points and the normalization-time now as timestamp. The same holds for a text that
  decodes to such an object.
\<close>

theorem normalizer_totality_on_defaults:
  "parseAgentResponse json_parse now (JObj kvs) \<noteq> None
   \<and> (lacks_optional_fields (unwrap_result (JObj kvs))
      \<longrightarrow> parseAgentResponse json_parse now (JObj kvs) = Some (default_fragment now)
        \<and> (s \<noteq> [] \<and> json_parse s = Some (JObj kvs)
            \<longrightarrow> parseAgentResponse json_parse now (JStr s) = Some (default_fragment now)))"
  by (simp add: parseAgentResponse_object parseAgentResponse_string extract_fields_lacking)

theorem normalizer_totality_on_defaults_witness:
  "lacks_optional_fields (unwrap_result (JObj [(''note'', JStr ''hold'')]))
   \<and> parseAgentResponse json_examples ''2024-05-01T10:00:00.000Z''
        (JObj [(''note'', JStr ''hold'')])
       = Some \<lparr> currentPrice = ''N/A'', priceChange = ''N/A'', direction = ''flat'',
                bulletPoints = [], timestamp = ''2024-05-01T10:00:00.000Z'' \<rparr>
   \<and> parseAgentResponse json_examples ''2024-05-01T10:00:00.000Z''
        (JObj [(''result'', JObj [(''note'', JStr ''hold'')])])
       = Some \<lparr> currentPrice = ''N/A'', priceChange = ''N/A'', direction = ''flat'',
                bulletPoints = [], timestamp = ''2024-05-01T10:00:00.000Z'' \<rparr>
   \<and> parseAgentResponse json_examples ''2024-05-01T10:00:00.000Z'' (JStr ''{}'')
       = Some \<lparr> currentPrice = ''N/A'', priceChange = ''N/A'', direction = ''flat'',
                bulletPoints = [], timestamp = ''2024-05-01T10:00:00.000Z'' \<rparr>"
proof -
  have h1: "lacks_optional_fields (unwrap_result (JObj [(''note'', JStr ''hold'')]))"
    by (simp add: lacks_optional_fields_def optional_fields_def unwrap_result_def)
  have h2: "lacks_optional_fields (unwrap_result (JObj []))"
    by (simp add: lacks_optional_fields_def optional_fields_def unwrap_result_def)
  have h3: "lacks_optional_fields
              (unwrap_result (JObj [(''result'', JObj [(''note'', JStr ''hold'')])]))"
    by (simp add: lacks_optional_fields_def optional_fields_def unwrap_result_def)
  have d: "''{}'' \<noteq> [] \<and> json_examples ''{}'' = Some (JObj [])"
    by (simp add: json_examples_def)
  from h1 h2 h3 d
    normalizer_totality_on_defaults
      [of json_examples "''2024-05-01T10:00:00.000Z''" "[(''note'', JStr ''hold'')]" "''{}''"]
    normalizer_totality_on_defaults
      [of json_examples "''2024-05-01T10:00:00.000Z''"
          "[(''result'', JObj [(''note'', JStr ''hold'')])]" "''{}''"]
    normalizer_totality_on_defaults
      [of json_examples "''2024-05-01T10:00:00.000Z''" "[]" "''{}''"]
  show ?thesis by (simp add: default_fragment_def)
qed

text \<open>
  C10. Normalization accepts structured data that is not an object. A text that
  decodes to a value other than an object (\<^verbatim>\<open>"42"\<close>, \<^verbatim>\<open>"true"\<close>, \<^verbatim>\<open>"null"\<close>, a text
  of an array) is not Unparseable, and neither is an array payload: the result is the
  record of defaults, as if every optional field were absent. A text that decodes is
  not empty (\<^verbatim>\<open>JSON.parse\<close> throws on the empty text), which is the hypothesis
  \<open>s \<noteq> []\<close> for an arbitrary decoder.
\<close>

theorem normalizer_accepts_non_object_data:
  "(s \<noteq> [] \<and> json_parse s = Some v \<and> (\<forall>kvs. v \<noteq> JObj kvs)
      \<longrightarrow> parseAgentResponse json_parse now (JStr s) = Some (default_fragment now))
   \<and> parseAgentResponse json_parse now (JArr xs) = Some (default_fragment now)"
proof (intro conjI impI)
  assume a: "s \<noteq> [] \<and> json_parse s = Some v \<and> (\<forall>kvs. v \<noteq> JObj kvs)"
  then have "unwrap_result v = v" and "lacks_optional_fields v"
    by (simp_all add: unwrap_result_non_object lacks_optional_fields_non_object)
  with a show "parseAgentResponse json_parse now (JStr s) = Some (default_fragment now)"
    by (simp add: parseAgentResponse_string extract_fields_lacking)
next
  have "lacks_optional_fields (JArr xs)"
    by (simp add: lacks_optional_fields_non_object)
  then show "parseAgentResponse json_parse now (JArr xs) = Some (default_fragment now)"
    by (simp add: parseAgentResponse_array extract_fields_lacking)
qed

theorem normalizer_accepts_non_object_data_witness:
  "parseAgentResponse json_examples ''2024-05-01T10:00:00.000Z'' (JStr ''42'')
     = Some \<lparr> currentPrice = ''N/A'', priceChange = ''N/A'', direction = ''flat'',
              bulletPoints = [], timestamp = ''2024-05-01T10:00:00.000Z'' \<rparr>
   \<and> parseAgentResponse json_examples ''2024-05-01T10:00:00.000Z'' (JStr ''null'')
     = Some \<lparr> currentPrice = ''N/A'', priceChange = ''N/A'', direction = ''flat'',
              bulletPoints = [], timestamp = ''2024-05-01T10:00:00.000Z'' \<rparr>
   \<and> parseAgentResponse json_examples ''2024-05-01T10:00:00.000Z''
        (JArr [JStr ''up'', JNum (Fin 3)])
     = Some \<lparr> currentPrice = ''N/A'', priceChange = ''N/A'', direction = ''flat'',
              bulletPoints = [], timestamp = ''2024-05-01T10:00:00.000Z'' \<rparr>"
proof -
  have a: "''42'' \<noteq> [] \<and> json_examples ''42'' = Some (JNum (Fin 42))
           \<and> (\<forall>kvs. JNum (Fin 42) \<noteq> JObj kvs)"
    by (simp add: json_examples_def)
  have b: "''null'' \<noteq> [] \<and> json_examples ''null'' = Some JNull
           \<and> (\<forall>kvs. JNull \<noteq> JObj kvs)"
    by (simp add: json_examples_def)
  from a b
    normalizer_accepts_non_object_data
      [of "''42''" json_examples "JNum (Fin 42)" "''2024-05-01T10:00:00.000Z''"
          "[JStr ''up'', JNum (Fin 3)]"]
    normalizer_accepts_non_object_data
      [of "''null''" json_examples JNull "''2024-05-01T10:00:00.000Z''" "[]"]
  show ?thesis by (simp add: default_fragment_def)
qed





section \<open>Properties of the poller\<close>




lemma poll_latest:
  assumes "logs_success result" and "executions result = Some (latestLog # older)"
    and "log_id latestLog = Some lid" and "lid \<noteq> []"
  shows "pollForNewResults env (Returned result) st =
     (if lastLogId st = Some lid then log_request (GetScheduleLogs SCHEDULE_ID 3) st
      else if lastLogId st = None
        then (log_request (GetScheduleLogs SCHEDULE_ID 3) st)\<lparr>lastLogId := Some lid\<rparr>
      else (process_latest env latestLog
              ((log_request (GetScheduleLogs SCHEDULE_ID 3) st)\<lparr>lastLogId := Some lid\<rparr>))
             \<lparr>logs := latestLog # older, logsTotal := total_count result\<rparr>)"
  using assms by (simp add: pollForNewResults_def Let_def log_request_def)

text \<open>
  C8. On the first tick of a session (\<^verbatim>\<open>lastLogIdRef.current\<close> is \<^verbatim>\<open>null\<close>) that
  fetches a non-empty page whose first entry has an id, the tick records that id as
  last seen and inserts nothing into the feed, whatever the success flags and payloads
  of the entries are: the state changes in the last-seen id (and the log of requests)
  only.
\<close>

theorem poller_first_tick_suppression:
  assumes "lastLogId st = None" and "logs_success result"
    and "executions result = Some (latestLog # older)"
    and "log_id latestLog = Some lid" and "lid \<noteq> []"
  shows "pollForNewResults env (Returned result) st
           = st\<lparr>lastLogId := Some lid,
                requests := requests st @ [GetScheduleLogs SCHEDULE_ID 3]\<rparr>
       \<and> lastLogId (pollForNewResults env (Returned result) st) = Some lid
       \<and> feed (pollForNewResults env (Returned result) st) = feed st"
  using assms by (simp add: poll_latest log_request_def)

theorem poller_first_tick_suppression_witness:
  "lastLogId (pollForNewResults example_env
      (Returned (example_page [example_log ''e2'' example_payload,
                               example_log ''e1'' example_payload] 2))
      initial_session) = Some ''e2''
   \<and> feed (pollForNewResults example_env
      (Returned (example_page [example_log ''e2'' example_payload,
                               example_log ''e1'' example_payload] 2))
      initial_session) = []"
proof -
  have h: "lastLogId initial_session = None"
    "logs_success (example_page [example_log ''e2'' example_payload,
                               example_log ''e1'' example_payload] 2)"
    "executions (example_page [example_log ''e2'' example_payload,
                               example_log ''e1'' example_payload] 2)
       = Some (example_log ''e2'' example_payload # [example_log ''e1'' example_payload])"
    "log_id (example_log ''e2'' example_payload) = Some ''e2''"
    "''e2'' \<noteq> []"
    by (simp_all add: initial_session_def example_page_def example_log_def)
  have f: "feed initial_session = []" by (simp add: initial_session_def)
  from poller_first_tick_suppression [OF h, of example_env] f
  show ?thesis by simp
qed




text \<open>
  C4, as stated, fails: a tick that fetches the one-entry page of \<^verbatim>\<open>e2\<close> with total
  7 leaves the cached view empty and the cached total 0, both when \<^verbatim>\<open>e2\<close> is the
  last-seen id and on the first tick of the session.
\<close>

theorem log_refresh_counterexample:
  "logs (pollForNewResults example_env
      (Returned (example_page [example_log ''e2'' example_payload] 7))
      (initial_session\<lparr>lastLogId := Some ''e2''\<rparr>)) = []
   \<and> logsTotal (pollForNewResults example_env
      (Returned (example_page [example_log ''e2'' example_payload] 7))
      (initial_session\<lparr>lastLogId := Some ''e2''\<rparr>)) = 0
   \<and> logs (pollForNewResults example_env
      (Returned (example_page [example_log ''e2'' example_payload] 7))
      initial_session) = []
   \<and> logsTotal (pollForNewResults example_env
      (Returned (example_page [example_log ''e2'' example_payload] 7))
      initial_session) = 0"
  by (simp add: pollForNewResults_def example_page_def example_log_def
      initial_session_def log_request_def Let_def)

text \<open>
  C4, amended. On a tick that fetches a non-empty page whose latest entry has an id,
  the cached view of recent executions and its total are replaced by the fetched page
  and its reported total when a last-seen id is known and differs from the latest id,
  whether or not a new analysis record is produced; when the latest id equals the
  last-seen id, and on the first tick of the session, the cached view and total are
  left as they were.
\<close>

theorem log_refresh_past_the_guards:
  assumes "logs_success result" and "executions result = Some (latestLog # older)"
    and "log_id latestLog = Some lid" and "lid \<noteq> []"
  shows "(lastLogId st = Some seen \<and> seen \<noteq> lid
            \<longrightarrow> logs (pollForNewResults env (Returned result) st) = latestLog # older
              \<and> logsTotal (pollForNewResults env (Returned result) st) = total_count result)
       \<and> (lastLogId st = Some lid \<or> lastLogId st = None
            \<longrightarrow> logs (pollForNewResults env (Returned result) st) = logs st
              \<and> logsTotal (pollForNewResults env (Returned result) st) = logsTotal st)"
  using assms by (auto simp: poll_latest log_request_def)

theorem log_refresh_past_the_guards_witness:
  "logs (pollForNewResults example_env
      (Returned (example_page [example_log ''e2'' (JStr ''not json''),
                               example_log ''e1'' example_payload] 7))
      (initial_session\<lparr>lastLogId := Some ''e1''\<rparr>))
     = [example_log ''e2'' (JStr ''not json''), example_log ''e1'' example_payload]
   \<and> logsTotal (pollForNewResults example_env
      (Returned (example_page [example_log ''e2'' (JStr ''not json''),
                               example_log ''e1'' example_payload] 7))
      (initial_session\<lparr>lastLogId := Some ''e1''\<rparr>)) = 7
   \<and> logs (pollForNewResults example_env
      (Returned (example_page [example_log ''e2'' (JStr ''not json''),
                               example_log ''e1'' example_payload] 7))
      (initial_session\<lparr>lastLogId := Some ''e2''\<rparr>)) = []"
proof -
  have h: "logs_success (example_page [example_log ''e2'' (JStr ''not json''),
                               example_log ''e1'' example_payload] 7)"
    "executions (example_page [example_log ''e2'' (JStr ''not json''),
                               example_log ''e1'' example_payload] 7)
       = Some (example_log ''e2'' (JStr ''not json'') # [example_log ''e1'' example_payload])"
    "log_id (example_log ''e2'' (JStr ''not json'')) = Some ''e2''"
    "''e2'' \<noteq> []"
    by (simp_all add: example_page_def example_log_def)
  have s1: "lastLogId (initial_session\<lparr>lastLogId := Some ''e1''\<rparr>) = Some ''e1'' \<and> ''e1'' \<noteq> ''e2''"
    by simp
  have s2: "lastLogId (initial_session\<lparr>lastLogId := Some ''e2''\<rparr>) = Some ''e2''
      \<or> lastLogId (initial_session\<lparr>lastLogId := Some ''e2''\<rparr>) = None"
    by simp
  have t: "total_count (example_page [example_log ''e2'' (JStr ''not json''),
                               example_log ''e1'' example_payload] 7) = 7"
    "logs (initial_session\<lparr>lastLogId := Some ''e2''\<rparr>) = []"
    by (simp_all add: example_page_def initial_session_def)
  from s1 s2 t
    log_refresh_past_the_guards [OF h, of "initial_session\<lparr>lastLogId := Some ''e1''\<rparr>" "''e1''" example_env]
    log_refresh_past_the_guards [OF h, of "initial_session\<lparr>lastLogId := Some ''e2''\<rparr>" "''e2''" example_env]
  show ?thesis by simp
qed

section \<open>Properties of the manual trigger\<close>

lemma error_or_default_nonempty: "error_or_default e \<noteq> []"
  by (simp add: error_or_default_def split: option.splits)

lemma runAnalysis_threw:
  "runAnalysis env (Threw err) st =
     st\<lparr>isAnalyzing := False, analysisError := Some (thrown_message err),
        requests := requests st @ [CallAIAgent ANALYSIS_PROMPT AGENT_ID]\<rparr>"
  by (simp add: runAnalysis_def log_request_def Let_def)

lemma runAnalysis_refused:
  "\<not> agent_success result \<Longrightarrow>
   runAnalysis env (Returned result) st =
     st\<lparr>isAnalyzing := False, analysisError := Some (error_or_default (agent_error result)),
        requests := requests st @ [CallAIAgent ANALYSIS_PROMPT AGENT_ID]\<rparr>"
  by (simp add: runAnalysis_def log_request_def Let_def)

lemma runAnalysis_unparseable:
  "agent_success result \<Longrightarrow>
   parseAgentResponse (JSON_parse env) (parse_clock env) (response_result result) = None \<Longrightarrow>
   runAnalysis env (Returned result) st =
     st\<lparr>isAnalyzing := False,
        analysisError := Some ''Received unexpected response format from agent.'',
        requests := requests st @ [CallAIAgent ANALYSIS_PROMPT AGENT_ID]\<rparr>"
  by (simp add: runAnalysis_def log_request_def Let_def)

lemma runAnalysis_inserted:
  "agent_success result \<Longrightarrow>
   parseAgentResponse (JSON_parse env) (parse_clock env) (response_result result) = Some parsed \<Longrightarrow>
   runAnalysis env (Returned result) st =
     st\<lparr>feed := mk_entry (generateId env) parsed manual # feed st,
        isAnalyzing := False, analysisError := None,
        lastUpdated := Some (update_clock env),
        requests := requests st @ [CallAIAgent ANALYSIS_PROMPT AGENT_ID]\<rparr>"
  by (simp add: runAnalysis_def log_request_def Let_def)

lemma runAnalysis_failure:
  "(call = Threw (ErrorObj m)
      \<longrightarrow> analysisError (runAnalysis env call st) = Some m)
   \<and> (call = Threw NonError
      \<longrightarrow> analysisError (runAnalysis env call st) = Some ''Network error during analysis.'')
   \<and> (call = Returned result \<and> \<not> agent_success result
      \<longrightarrow> analysisError (runAnalysis env call st)
            = Some (if agent_error result = None \<or> agent_error result = Some []
                    then ''Analysis failed. Please try again.''
                    else the (agent_error result)))
   \<and> (call = Returned result \<and> agent_success result
        \<and> parseAgentResponse (JSON_parse env) (parse_clock env) (response_result result) = None
      \<longrightarrow> analysisError (runAnalysis env call st)
            = Some ''Received unexpected response format from agent.'')
   \<and> (call = Threw err
        \<or> (call = Returned result \<and> \<not> agent_success result)
        \<or> (call = Returned result \<and> agent_success result
            \<and> parseAgentResponse (JSON_parse env) (parse_clock env) (response_result result) = None)
      \<longrightarrow> feed (runAnalysis env call st) = feed st
        \<and> analysisError (runAnalysis env call st) \<noteq> None
        \<and> requests (runAnalysis env call st)
            = requests st @ [CallAIAgent ANALYSIS_PROMPT AGENT_ID]
        \<and> \<not> isAnalyzing (runAnalysis env call st))"
proof (intro conjI impI)
  assume "call = Threw (ErrorObj m)"
  then show "analysisError (runAnalysis env call st) = Some m"
    by (simp add: runAnalysis_threw thrown_message_def)
next
  assume "call = Threw NonError"
  then show "analysisError (runAnalysis env call st) = Some ''Network error during analysis.''"
    by (simp add: runAnalysis_threw thrown_message_def)
next
  assume "call = Returned result \<and> \<not> agent_success result"
  then show "analysisError (runAnalysis env call st)
            = Some (if agent_error result = None \<or> agent_error result = Some []
                    then ''Analysis failed. Please try again.''
                    else the (agent_error result))"
    by (auto simp: runAnalysis_refused error_or_default_def split: option.splits)
next
  assume "call = Returned result \<and> agent_success result
        \<and> parseAgentResponse (JSON_parse env) (parse_clock env) (response_result result) = None"
  then show "analysisError (runAnalysis env call st)
            = Some ''Received unexpected response format from agent.''"
    by (simp add: runAnalysis_unparseable)
next
  assume f: "call = Threw err
        \<or> (call = Returned result \<and> \<not> agent_success result)
        \<or> (call = Returned result \<and> agent_success result
            \<and> parseAgentResponse (JSON_parse env) (parse_clock env) (response_result result) = None)"
  then show "feed (runAnalysis env call st) = feed st"
    by (auto simp: runAnalysis_threw runAnalysis_refused runAnalysis_unparseable)
  from f show "analysisError (runAnalysis env call st) \<noteq> None"
    by (auto simp: runAnalysis_threw runAnalysis_refused runAnalysis_unparseable)
  from f show "requests (runAnalysis env call st)
            = requests st @ [CallAIAgent ANALYSIS_PROMPT AGENT_ID]"
    by (auto simp: runAnalysis_threw runAnalysis_refused runAnalysis_unparseable)
  from f show "\<not> isAnalyzing (runAnalysis env call st)"
    by (auto simp: runAnalysis_threw runAnalysis_refused runAnalysis_unparseable)
qed

lemma runAnalysis_failure_banner:
  "(call = Threw (ErrorObj m) \<and> m \<noteq> []
      \<longrightarrow> error_banner (runAnalysis env call st) = Some m)
   \<and> (call = Threw NonError
      \<longrightarrow> error_banner (runAnalysis env call st) = Some ''Network error during analysis.'')
   \<and> (call = Returned result \<and> \<not> agent_success result
      \<longrightarrow> error_banner (runAnalysis env call st) = Some (error_or_default (agent_error result)))
   \<and> (call = Returned result \<and> agent_success result
        \<and> parseAgentResponse (JSON_parse env) (parse_clock env) (response_result result) = None
      \<longrightarrow> error_banner (runAnalysis env call st)
            = Some ''Received unexpected response format from agent.'')"
  by (auto simp: error_banner_def runAnalysis_threw runAnalysis_refused
      runAnalysis_unparseable thrown_message_def error_or_default_nonempty)

text \<open>
  C7, at the failing input. The agent call throws an \<^verbatim>\<open>Error\<close> whose message is
  empty: the run stores the empty string as its message and the banner shows nothing,
  so no message reaches the operator, while the feed is left unchanged. The branch
  for \<^verbatim>\<open>success: false\<close> falls back to a fixed text when the agent's error text is
  empty.
\<close>

theorem manual_trigger_empty_message:
  "analysisError (runAnalysis example_env (Threw (ErrorObj [])) initial_session) = Some []
   \<and> error_banner (runAnalysis example_env (Threw (ErrorObj [])) initial_session) = None
   \<and> feed (runAnalysis example_env (Threw (ErrorObj [])) initial_session) = []
   \<and> error_banner (runAnalysis example_env
        (Returned \<lparr> agent_success = False, response_result = JUndefined,
                    agent_error = Some [] \<rparr>) initial_session)
     = Some ''Analysis failed. Please try again.''"
  by (simp add: error_banner_def runAnalysis_threw runAnalysis_refused thrown_message_def
      error_or_default_def initial_session_def)

section \<open>Properties of the feed store\<close>

lemma isDuplicate_iff:
  "isDuplicate entry prev \<longleftrightarrow> dedup_key entry \<in> set (map dedup_key prev)"
  by (induction prev) (auto simp: isDuplicate_def dedup_key_def)

lemma insert_scheduled_duplicate:
  "dedup_key entry \<in> set (map dedup_key prev) \<Longrightarrow> insert_scheduled entry prev = prev"
  by (simp add: insert_scheduled_def isDuplicate_iff)

lemma insert_scheduled_distinct:
  "distinct (map dedup_key prev) \<Longrightarrow> distinct (map dedup_key (insert_scheduled entry prev))"
  by (simp add: insert_scheduled_def isDuplicate_iff)

lemma process_latest_distinct:
  "distinct (map dedup_key (feed st))
   \<Longrightarrow> distinct (map dedup_key (feed (process_latest env l st)))"
  by (simp add: process_latest_def insert_scheduled_distinct split: option.splits)

lemma poll_distinct:
  "distinct (map dedup_key (feed st))
   \<Longrightarrow> distinct (map dedup_key (feed (pollForNewResults env fetch st)))"
  by (simp add: pollForNewResults_def Let_def log_request_def process_latest_distinct
      split: outcome.splits option.splits list.splits)

text \<open>
  C1, at the failing input. Two manual runs to which the agent returns the same
  payload (the same \<^verbatim>\<open>timestamp\<close> and \<^verbatim>\<open>current_price\<close>) leave two records with an
  equal pair in the feed: the second insertion is not a no-op. The same payload found
  by a poll tick after the first manual run is dropped by the poller's duplicate test.
\<close>

theorem manual_trigger_inserts_duplicate:
  "map dedup_key (feed (run
       [ManualRun example_env (Returned (example_agent_result example_payload)),
        ManualRun (example_env\<lparr>generateId := ''p8d5t0z4c6nr1e9y''\<rparr>)
          (Returned (example_agent_result example_payload))]
       initial_session))
     = [(''2024-05-01T09:50:00.000Z'', ''$420.10''), (''2024-05-01T09:50:00.000Z'', ''$420.10'')]
   \<and> map dedup_key (feed (run
       [ManualRun example_env (Returned (example_agent_result example_payload)),
        PollTick (example_env\<lparr>generateId := ''p8d5t0z4c6nr1e9y''\<rparr>)
          (Returned (example_page [example_log ''e2'' example_payload] 1))]
       (initial_session\<lparr>lastLogId := Some ''e1''\<rparr>)))
     = [(''2024-05-01T09:50:00.000Z'', ''$420.10'')]"
  by (simp add: runAnalysis_def pollForNewResults_def process_latest_def
      insert_scheduled_def isDuplicate_def mk_entry_def dedup_key_def
      parseAgentResponse_def unwrap_result_def extract_fields_def string_field_def
      bullet_field_def string_elements_def List.map_filter_def
      example_env_def example_agent_result_def example_payload_def example_page_def
      example_log_def initial_session_def log_request_def Let_def)

section \<open>Properties of the schedule toggle\<close>

lemma loadScheduleStatus_active:
  "scheduleActive (loadScheduleStatus fetch st) =
     (case status_reported fetch of
        None \<Rightarrow> scheduleActive st
      | Some sched \<Rightarrow> Some (is_active sched))"
  by (simp add: loadScheduleStatus_def status_reported_def log_request_def Let_def
      split: outcome.splits option.splits)

lemma loadScheduleStatus_requests:
  "requests (loadScheduleStatus fetch st) = requests st @ [ListSchedules AGENT_ID]"
  by (simp add: loadScheduleStatus_def log_request_def Let_def
      split: outcome.splits option.splits)

lemma toggle_returned:
  "scheduleData st = Some sd \<Longrightarrow>
   handleToggleSchedule (Returned ack) fetch st =
     (loadScheduleStatus fetch
        (st\<lparr>toggling := True, requests := requests st @ [toggle_request sd]\<rparr>))
       \<lparr>toggling := False\<rparr>"
  by (simp add: handleToggleSchedule_def toggle_request_def log_request_def Let_def)

lemma toggle_threw:
  "scheduleData st = Some sd \<Longrightarrow>
   handleToggleSchedule (Threw err) fetch st =
     st\<lparr>toggling := False, requests := requests st @ [toggle_request sd]\<rparr>"
  by (simp add: handleToggleSchedule_def toggle_request_def log_request_def Let_def)

lemma toggle_reconciles_when_call_returns:
  assumes "scheduleData st = Some sd"
  shows "scheduleActive (handleToggleSchedule (Returned ack) fetch st)
           = (case status_reported fetch of
                None \<Rightarrow> scheduleActive st
              | Some sched \<Rightarrow> Some (is_active sched))"
    and "requests (handleToggleSchedule (Returned ack) fetch st)
           = requests st @ [toggle_request sd, ListSchedules AGENT_ID]"
  using assms
  by (simp_all add: toggle_returned loadScheduleStatus_active loadScheduleStatus_requests
      split: option.splits)

lemma toggle_never_optimistic:
  "scheduleActive (handleToggleSchedule toggle_call fetch st) = scheduleActive st
   \<or> (\<exists>sched. status_reported fetch = Some sched
         \<and> scheduleActive (handleToggleSchedule toggle_call fetch st) = Some (is_active sched))"
proof (cases "scheduleData st")
  case None
  then show ?thesis by (simp add: handleToggleSchedule_def)
next
  case (Some sd)
  then show ?thesis
    by (cases toggle_call; cases "status_reported fetch")
       (simp_all add: toggle_threw toggle_returned loadScheduleStatus_active)
qed

text \<open>
  C5, at the failing input. The cached schedule is active, the pause request throws,
  and a status fetch would report the schedule paused. The run issues the pause
  request and no status fetch, and the cached \<^verbatim>\<open>scheduleActive\<close> stays \<^verbatim>\<open>true\<close>, which
  is not what the status fetch reports.
\<close>

theorem toggle_skips_reconciling_fetch:
  "scheduleActive (handleToggleSchedule (Threw (ErrorObj ''Failed to fetch''))
       (Returned (example_listing [example_schedule False]))
       (initial_session\<lparr>scheduleData := Some (example_schedule True),
                        scheduleActive := Some True\<rparr>)) = Some True
   \<and> scheduleActive (loadScheduleStatus
       (Returned (example_listing [example_schedule False]))
       (initial_session\<lparr>scheduleData := Some (example_schedule True),
                        scheduleActive := Some True\<rparr>)) = Some False
   \<and> requests (handleToggleSchedule (Threw (ErrorObj ''Failed to fetch''))
       (Returned (example_listing [example_schedule False]))
       (initial_session\<lparr>scheduleData := Some (example_schedule True),
                        scheduleActive := Some True\<rparr>)) = [PauseSchedule SCHEDULE_ID]"
  by (simp add: handleToggleSchedule_def loadScheduleStatus_def select_schedule_def
      example_listing_def example_schedule_def initial_session_def log_request_def Let_def)

section \<open>Properties of the display\<close>

lemma process_latest_feed:
  "feed (process_latest env l st) = feed st
   \<or> (\<exists>parsed.
         parseAgentResponse (JSON_parse env) (parse_clock env) (response_output l) = Some parsed
         \<and> feed (process_latest env l st) = mk_entry (generateId env) parsed scheduled # feed st)"
  by (simp add: process_latest_def insert_scheduled_def split: option.splits)

lemma loadScheduleStatus_feed: "feed (loadScheduleStatus fetch st) = feed st"
  by (simp add: loadScheduleStatus_def log_request_def Let_def
      split: outcome.splits option.splits)

lemma loadLogs_feed: "feed (loadLogs fetch st) = feed st"
  by (simp add: loadLogs_def log_request_def Let_def split: outcome.splits option.splits)

lemma toggle_feed: "feed (handleToggleSchedule toggle_call fetch st) = feed st"
  by (simp add: handleToggleSchedule_def loadScheduleStatus_feed log_request_def Let_def
      split: outcome.splits option.splits)

lemma poll_feed_tied:
  "feed (pollForNewResults env fetch st) = feed st
   \<or> (\<exists>result latestLog older parsed.
         fetch = Returned result \<and> executions result = Some (latestLog # older)
         \<and> parseAgentResponse (JSON_parse env) (parse_clock env) (response_output latestLog)
             = Some parsed
         \<and> feed (pollForNewResults env fetch st)
             = mk_entry (generateId env) parsed scheduled # feed st)"
proof (cases fetch)
  case (Threw err)
  then show ?thesis by (simp add: pollForNewResults_def Let_def log_request_def)
next
  case (Returned result)
  show ?thesis
  proof (cases "executions result")
    case None
    with Returned show ?thesis by (simp add: pollForNewResults_def Let_def log_request_def)
  next
    case (Some execs)
    show ?thesis
    proof (cases execs)
      case Nil
      with Returned Some show ?thesis
        by (simp add: pollForNewResults_def Let_def log_request_def)
    next
      case (Cons latestLog older)
      have k: "\<And>lid. feed (process_latest env latestLog
                  ((log_request (GetScheduleLogs SCHEDULE_ID 3) st)\<lparr>lastLogId := Some lid\<rparr>))
                = feed st
              \<or> (\<exists>parsed.
                   parseAgentResponse (JSON_parse env) (parse_clock env)
                      (response_output latestLog) = Some parsed
                   \<and> feed (process_latest env latestLog
                        ((log_request (GetScheduleLogs SCHEDULE_ID 3) st)\<lparr>lastLogId := Some lid\<rparr>))
                      = mk_entry (generateId env) parsed scheduled # feed st)"
        subgoal for lid
          using process_latest_feed
            [of env latestLog
                "(log_request (GetScheduleLogs SCHEDULE_ID 3) st)\<lparr>lastLogId := Some lid\<rparr>"]
          by (simp add: log_request_def)
        done
      from Returned Some Cons k show ?thesis
        by (simp add: pollForNewResults_def Let_def log_request_def split: option.splits)
    qed
  qed
qed

lemma runAnalysis_feed_tied:
  "feed (runAnalysis env call st) = feed st
   \<or> (\<exists>result parsed.
         call = Returned result
         \<and> parseAgentResponse (JSON_parse env) (parse_clock env) (response_result result)
             = Some parsed
         \<and> feed (runAnalysis env call st) = mk_entry (generateId env) parsed manual # feed st)"
  by (cases call)
     (simp_all add: runAnalysis_def Let_def log_request_def split: option.splits)

lemma step_feed_other:
  "(\<forall>env fetch. ev \<noteq> PollTick env fetch) \<and> (\<forall>env call. ev \<noteq> ManualRun env call)
   \<Longrightarrow> feed (step ev st) = feed st"
  by (cases ev) (simp_all add: loadScheduleStatus_feed loadLogs_feed toggle_feed)

lemma step_feed_nonempty: "feed st \<noteq> [] \<Longrightarrow> feed (step ev st) \<noteq> []"
proof (cases ev)
  case (PollTick env fetch)
  assume "feed st \<noteq> []"
  with PollTick poll_feed_tied [of env fetch st] show ?thesis by auto
next
  case (ManualRun env call)
  assume "feed st \<noteq> []"
  with ManualRun runAnalysis_feed_tied [of env call st] show ?thesis by auto
qed (simp_all add: loadScheduleStatus_feed loadLogs_feed toggle_feed)

lemma run_feed_nonempty: "feed st \<noteq> [] \<Longrightarrow> feed (run evs st) \<noteq> []"
  by (induction evs arbitrary: st) (simp_all add: step_feed_nonempty)

lemma process_latest_flag:
  "process_latest env l (st\<lparr>showSampleData := b\<rparr>)
     = (process_latest env l st)\<lparr>showSampleData := b\<rparr>"
  by (simp add: process_latest_def split: option.splits)

lemma poll_flag:
  "pollForNewResults env fetch (st\<lparr>showSampleData := b\<rparr>)
     = (pollForNewResults env fetch st)\<lparr>showSampleData := b\<rparr>"
proof -
  have c: "\<And>l lid. process_latest env l
             (st\<lparr>showSampleData := b,
                 requests := requests st @ [GetScheduleLogs SCHEDULE_ID 3],
                 lastLogId := Some lid\<rparr>)
           = (process_latest env l
               (st\<lparr>requests := requests st @ [GetScheduleLogs SCHEDULE_ID 3],
                   lastLogId := Some lid\<rparr>))\<lparr>showSampleData := b\<rparr>"
    subgoal for l lid
      by (cases st) (simp add: process_latest_def split: option.splits)
    done
  show ?thesis
    by (simp add: pollForNewResults_def Let_def log_request_def c
        split: outcome.splits option.splits list.splits)
qed

lemma runAnalysis_flag:
  "runAnalysis env call (st\<lparr>showSampleData := b\<rparr>)
     = (runAnalysis env call st)\<lparr>showSampleData := b\<rparr>"
  by (simp add: runAnalysis_def Let_def log_request_def split: outcome.splits option.splits)

lemma loadScheduleStatus_flag:
  "loadScheduleStatus fetch (st\<lparr>showSampleData := b\<rparr>)
     = (loadScheduleStatus fetch st)\<lparr>showSampleData := b\<rparr>"
  by (simp add: loadScheduleStatus_def Let_def log_request_def
      split: outcome.splits option.splits)

lemma loadLogs_flag:
  "loadLogs fetch (st\<lparr>showSampleData := b\<rparr>) = (loadLogs fetch st)\<lparr>showSampleData := b\<rparr>"
  by (simp add: loadLogs_def Let_def log_request_def split: outcome.splits option.splits)

lemma toggle_flag:
  "handleToggleSchedule toggle_call fetch (st\<lparr>showSampleData := b\<rparr>)
     = (handleToggleSchedule toggle_call fetch st)\<lparr>showSampleData := b\<rparr>"
proof (cases "scheduleData st")
  case None
  then show ?thesis by (simp add: handleToggleSchedule_def)
next
  case (Some sd)
  have c: "loadScheduleStatus fetch
             (st\<lparr>showSampleData := b, toggling := True,
                 requests := requests st @ [toggle_request sd]\<rparr>)
           = (loadScheduleStatus fetch
               (st\<lparr>toggling := True, requests := requests st @ [toggle_request sd]\<rparr>))
              \<lparr>showSampleData := b\<rparr>"
    by (cases st)
       (simp add: loadScheduleStatus_def Let_def log_request_def
          split: outcome.splits option.splits)
  from Some show ?thesis
    by (cases toggle_call) (simp_all add: toggle_threw toggle_returned c)
qed

lemma step_flag:
  "\<exists>b'. step ev (st\<lparr>showSampleData := b\<rparr>) = (step ev st)\<lparr>showSampleData := b'\<rparr>"
proof (cases ev)
  case SampleDataToggle
  have "step SampleDataToggle (st\<lparr>showSampleData := b\<rparr>)
          = (step SampleDataToggle st)\<lparr>showSampleData := \<not> b\<rparr>"
    by simp
  with SampleDataToggle show ?thesis by blast
next
  case Mount
  have "step Mount (st\<lparr>showSampleData := b\<rparr>) = (step Mount st)\<lparr>showSampleData := b\<rparr>"
    by simp
  with Mount show ?thesis by blast
next
  case ErrorDismiss
  have "step ErrorDismiss (st\<lparr>showSampleData := b\<rparr>)
          = (step ErrorDismiss st)\<lparr>showSampleData := b\<rparr>"
    by simp
  with ErrorDismiss show ?thesis by blast
next
  case ScrollToTop
  have "step ScrollToTop (st\<lparr>showSampleData := b\<rparr>)
          = (step ScrollToTop st)\<lparr>showSampleData := b\<rparr>"
    by simp
  with ScrollToTop show ?thesis by blast
next
  case SchedulePanelToggle
  have "step SchedulePanelToggle (st\<lparr>showSampleData := b\<rparr>)
          = (step SchedulePanelToggle st)\<lparr>showSampleData := b\<rparr>"
    by simp
  with SchedulePanelToggle show ?thesis by blast
next
  case (ScheduleStatusLoad fetch)
  then show ?thesis using loadScheduleStatus_flag [where fetch = fetch and st = st and b = b] by auto
next
  case (LogsLoad fetch)
  then show ?thesis using loadLogs_flag [where fetch = fetch and st = st and b = b] by auto
next
  case (PollTick env fetch)
  then show ?thesis using poll_flag [where env = env and fetch = fetch and st = st and b = b] by auto
next
  case (ManualRun env call)
  then show ?thesis using runAnalysis_flag [where env = env and call = call and st = st and b = b] by auto
next
  case (ScheduleToggle toggle_call fetch)
  then show ?thesis using toggle_flag [where toggle_call = toggle_call and fetch = fetch and st = st and b = b] by auto
qed

lemma run_flag:
  "\<exists>b'. run evs (st\<lparr>showSampleData := b\<rparr>) = (run evs st)\<lparr>showSampleData := b'\<rparr>"
proof (induction evs arbitrary: st b)
  case Nil
  show ?case by auto
next
  case (Cons ev evs)
  from step_flag [where ev = ev and st = st and b = b] obtain b' where
    s: "step ev (st\<lparr>showSampleData := b\<rparr>) = (step ev st)\<lparr>showSampleData := b'\<rparr>"
    by blast
  from Cons.IH [where st = "step ev st" and b = b'] s show ?case by simp
qed

lemma run_feed_flag: "feed (run evs (st\<lparr>showSampleData := b\<rparr>)) = feed (run evs st)"
proof -
  from run_flag [where evs = evs and st = st and b = b] obtain b' where
    "run evs (st\<lparr>showSampleData := b\<rparr>) = (run evs st)\<lparr>showSampleData := b'\<rparr>"
    by blast
  then show ?thesis by simp
qed

text \<open>
  C9, as stated, fails in one point: the illustrative records are not fixed. With the
  feed empty and sample mode on, the records displayed at 10:00:00 and those displayed
  at 10:01:00 carry different timestamps.
\<close>

theorem sample_substitution_counterexample:
  "map timestamp (displayFeed iso_examples 1714557600000
       (initial_session\<lparr>showSampleData := True\<rparr>))
     = [''2024-05-01T09:58:00.000Z'', ''2024-05-01T09:48:00.000Z'', ''2024-05-01T09:38:00.000Z'']
   \<and> map timestamp (displayFeed iso_examples 1714557660000
       (initial_session\<lparr>showSampleData := True\<rparr>))
     = [''2024-05-01T09:59:00.000Z'', ''2024-05-01T09:49:00.000Z'', ''2024-05-01T09:39:00.000Z'']
   \<and> displayFeed iso_examples 1714557600000 (initial_session\<lparr>showSampleData := True\<rparr>)
     \<noteq> displayFeed iso_examples 1714557660000 (initial_session\<lparr>showSampleData := True\<rparr>)"
  by (simp add: displayFeed_def getSampleData_def iso_examples_def initial_session_def)

text \<open>
  C9, amended. Whenever the feed is empty and the sample-mode flag is set, the
  displayed sequence is the three illustrative records \<^verbatim>\<open>sample-1\<close>, \<^verbatim>\<open>sample-2\<close>,
  \<^verbatim>\<open>sample-3\<close>: a function of the clock alone, fixed in every field but the timestamp,
  which is 2, 12 and 22 minutes before the time of display. They are never written
  into the real feed: the sample toggle, and every event other than a poll tick and a
  manual run, leaves the feed as it is; a poll tick leaves it as it is or puts in
  front the record normalized from the payload of the latest entry it fetched; a
  manual run leaves it as it is or puts in front the record normalized from the
  payload the agent returned; and the feed of a session is the same whether the flag
  is set or not. Whenever the feed is not empty the displayed sequence is the feed,
  and no run of events empties it, so after the first real insertion the illustrative
  records are gone for the rest of the session.
\<close>

theorem sample_substitution:
  "(showSampleData st \<and> feed st = []
      \<longrightarrow> displayFeed toISOString now st = getSampleData toISOString now)
   \<and> map entry_id (getSampleData toISOString now) = [''sample-1'', ''sample-2'', ''sample-3'']
   \<and> map timestamp (getSampleData toISOString now)
       = [toISOString (now - 120000), toISOString (now - 720000), toISOString (now - 1320000)]
   \<and> map (\<lambda>e. e\<lparr>timestamp := []\<rparr>) (getSampleData toISOString now)
       = map (\<lambda>e. e\<lparr>timestamp := []\<rparr>) (getSampleData toISOString' now')
   \<and> feed (step SampleDataToggle st) = feed st
   \<and> ((\<forall>env fetch. ev \<noteq> PollTick env fetch) \<and> (\<forall>env call. ev \<noteq> ManualRun env call)
      \<longrightarrow> feed (step ev st) = feed st)
   \<and> (feed (step (PollTick env fetch) st) = feed st
      \<or> (\<exists>result latestLog older parsed.
            fetch = Returned result \<and> executions result = Some (latestLog # older)
            \<and> parseAgentResponse (JSON_parse env) (parse_clock env) (response_output latestLog)
                = Some parsed
            \<and> feed (step (PollTick env fetch) st)
                = mk_entry (generateId env) parsed scheduled # feed st))
   \<and> (feed (step (ManualRun env call) st) = feed st
      \<or> (\<exists>result parsed.
            call = Returned result
            \<and> parseAgentResponse (JSON_parse env) (parse_clock env) (response_result result)
                = Some parsed
            \<and> feed (step (ManualRun env call) st)
                = mk_entry (generateId env) parsed manual # feed st))
   \<and> feed (run evs (st\<lparr>showSampleData := b\<rparr>)) = feed (run evs st)
   \<and> (feed st \<noteq> []
      \<longrightarrow> displayFeed toISOString now st = feed st
        \<and> feed (run evs st) \<noteq> []
        \<and> displayFeed toISOString now (run evs st) = feed (run evs st))"
proof (intro conjI impI)
  assume "showSampleData st \<and> feed st = []"
  then show "displayFeed toISOString now st = getSampleData toISOString now"
    by (simp add: displayFeed_def)
next
  show "map entry_id (getSampleData toISOString now) = [''sample-1'', ''sample-2'', ''sample-3'']"
    by (simp add: getSampleData_def)
next
  show "map timestamp (getSampleData toISOString now)
       = [toISOString (now - 120000), toISOString (now - 720000), toISOString (now - 1320000)]"
    by (simp add: getSampleData_def)
next
  show "map (\<lambda>e. e\<lparr>timestamp := []\<rparr>) (getSampleData toISOString now)
       = map (\<lambda>e. e\<lparr>timestamp := []\<rparr>) (getSampleData toISOString' now')"
    by (simp add: getSampleData_def)
next
  show "feed (step SampleDataToggle st) = feed st" by simp
next
  assume "(\<forall>env fetch. ev \<noteq> PollTick env fetch) \<and> (\<forall>env call. ev \<noteq> ManualRun env call)"
  then show "feed (step ev st) = feed st" by (rule step_feed_other)
next
  show "feed (step (PollTick env fetch) st) = feed st
      \<or> (\<exists>result latestLog older parsed.
            fetch = Returned result \<and> executions result = Some (latestLog # older)
            \<and> parseAgentResponse (JSON_parse env) (parse_clock env) (response_output latestLog)
                = Some parsed
            \<and> feed (step (PollTick env fetch) st)
                = mk_entry (generateId env) parsed scheduled # feed st)"
    using poll_feed_tied [of env fetch st] by simp
next
  show "feed (step (ManualRun env call) st) = feed st
      \<or> (\<exists>result parsed.
            call = Returned result
            \<and> parseAgentResponse (JSON_parse env) (parse_clock env) (response_result result)
                = Some parsed
            \<and> feed (step (ManualRun env call) st)
                = mk_entry (generateId env) parsed manual # feed st)"
    using runAnalysis_feed_tied [of env call st] by simp
next
  show "feed (run evs (st\<lparr>showSampleData := b\<rparr>)) = feed (run evs st)"
    by (rule run_feed_flag)
next
  assume n: "feed st \<noteq> []"
  then show "displayFeed toISOString now st = feed st"
    by (simp add: displayFeed_def)
  from n show r: "feed (run evs st) \<noteq> []"
    by (rule run_feed_nonempty)
  then show "displayFeed toISOString now (run evs st) = feed (run evs st)"
    by (simp add: displayFeed_def)
qed

theorem sample_substitution_witness:
  "displayFeed iso_examples 1714557600000 (initial_session\<lparr>showSampleData := True\<rparr>)
     = getSampleData iso_examples 1714557600000
   \<and> map timestamp (getSampleData iso_examples 1714557600000)
     = [''2024-05-01T09:58:00.000Z'', ''2024-05-01T09:48:00.000Z'', ''2024-05-01T09:38:00.000Z'']
   \<and> feed (step ErrorDismiss (initial_session\<lparr>showSampleData := True\<rparr>)) = []
   \<and> displayFeed iso_examples 1714557600000
       (step (ManualRun example_env (Returned (example_agent_result example_payload)))
          (initial_session\<lparr>showSampleData := True\<rparr>))
     = feed (step (ManualRun example_env (Returned (example_agent_result example_payload)))
          (initial_session\<lparr>showSampleData := True\<rparr>))
   \<and> displayFeed iso_examples 1714557600000
       (run [SampleDataToggle, SampleDataToggle]
          (step (ManualRun example_env (Returned (example_agent_result example_payload)))
             (initial_session\<lparr>showSampleData := True\<rparr>)))
     = feed (run [SampleDataToggle, SampleDataToggle]
          (step (ManualRun example_env (Returned (example_agent_result example_payload)))
             (initial_session\<lparr>showSampleData := True\<rparr>)))"
proof -
  let ?st = "initial_session\<lparr>showSampleData := True\<rparr>"
  let ?st1 = "step (ManualRun example_env (Returned (example_agent_result example_payload))) ?st"
  have h0: "showSampleData ?st \<and> feed ?st = []"
    by (simp add: initial_session_def)
  have h1: "feed ?st1 \<noteq> []"
    by (simp add: runAnalysis_def parseAgentResponse_def example_agent_result_def
        example_payload_def log_request_def Let_def)
  have h2: "(\<forall>env fetch. ErrorDismiss \<noteq> PollTick env fetch)
            \<and> (\<forall>env call. ErrorDismiss \<noteq> ManualRun env call)"
    by simp
  have t: "iso_examples (1714557600000 - 120000) = ''2024-05-01T09:58:00.000Z''"
    "iso_examples (1714557600000 - 720000) = ''2024-05-01T09:48:00.000Z''"
    "iso_examples (1714557600000 - 1320000) = ''2024-05-01T09:38:00.000Z''"
    by (simp_all add: iso_examples_def)
  note s0 = sample_substitution
      [where st = ?st and toISOString = iso_examples and now = 1714557600000
         and toISOString' = iso_examples and now' = 0 and evs = "[]" and b = True
         and ev = ErrorDismiss and env = example_env and fetch = "Threw NonError"
         and call = "Threw NonError"]
  from h0 t s0
  have p0: "displayFeed iso_examples 1714557600000 ?st = getSampleData iso_examples 1714557600000
     \<and> map timestamp (getSampleData iso_examples 1714557600000)
       = [''2024-05-01T09:58:00.000Z'', ''2024-05-01T09:48:00.000Z'', ''2024-05-01T09:38:00.000Z'']"
    by simp
  from h0 h2 s0 have p2: "feed (step ErrorDismiss ?st) = []"
    by simp
  from h1
    sample_substitution
      [where st = ?st1 and toISOString = iso_examples and now = 1714557600000
         and toISOString' = iso_examples and now' = 0
         and evs = "[SampleDataToggle, SampleDataToggle]" and b = True and ev = Mount
         and env = example_env and fetch = "Threw NonError" and call = "Threw NonError"]
  have p1: "displayFeed iso_examples 1714557600000 ?st1 = feed ?st1
     \<and> displayFeed iso_examples 1714557600000 (run [SampleDataToggle, SampleDataToggle] ?st1)
        = feed (run [SampleDataToggle, SampleDataToggle] ?st1)"
    by blast
  from p0 p1 p2 show ?thesis by blast
qed

end
